theory Spec2Isabelle
  imports Main "HOL-Library.Word"
begin

section \<open>Python helpers\<close>

text \<open>
  Strings are \<open>string\<close>. \<open>sep.join(parts)\<close> of Python; \<open>d.get(k, default)\<close> on a
  dictionary whose key \<open>k\<close> may be missing is \<open>dict_get\<close> on an optional field
  (\<open>None\<close>: the key is not in the dictionary).
\<close>

fun join :: "string \<Rightarrow> string list \<Rightarrow> string" where
  "join sep [] = []"
| "join sep [x] = x"
| "join sep (x # y # ys) = x @ sep @ join sep (y # ys)"

definition dict_get :: "'a option \<Rightarrow> 'a \<Rightarrow> 'a" where
  "dict_get field dflt = (case field of None \<Rightarrow> dflt | Some v \<Rightarrow> v)"

section \<open>Language registry (services/text_translation.py, services/speech_translation.py)\<close>

text \<open>The two dictionaries, in the order of the source (the order of \<open>keys()\<close>).\<close>

definition LANGUAGE_MAP :: "(string \<times> string) list" where
  "LANGUAGE_MAP =
    [(''English'', ''eng_Latn''),
     (''isiZulu'', ''zul_Latn''),
     (''isiXhosa'', ''xho_Latn''),
     (''Kiswahili'', ''swh_Latn''),
     (''Afrikaans'', ''afr_Latn''),
     (''Southern Sotho'', ''sot_Latn''),
     (''Northern Sotho'', ''nso_Latn''),
     (''Swati'', ''ssw_Latn''),
     (''Tsonga'', ''tso_Latn''),
     (''Tswana'', ''tsn_Latn''),
     (''Nigerian Pidgin'', ''eng_Latn''),
     (''Portuguese'', ''eng_Latn'')]"

definition STT_LANGUAGE_MAP :: "(string \<times> string) list" where
  "STT_LANGUAGE_MAP =
    [(''English'', ''eng''),
     (''isiZulu'', ''zul''),
     (''isiXhosa'', ''eng''),
     (''Kiswahili'', ''eng''),
     (''Afrikaans'', ''afr''),
     (''Southern Sotho'', ''sot''),
     (''Nigerian Pidgin'', ''eng''),
     (''Portuguese'', ''eng'')]"

definition get_language_code :: "string \<Rightarrow> string" where
  "get_language_code language = dict_get (map_of LANGUAGE_MAP language) ''eng_Latn''"

definition get_stt_language_code :: "string \<Rightarrow> string" where
  "get_stt_language_code language = dict_get (map_of STT_LANGUAGE_MAP language) ''eng''"

section \<open>Provider payloads and analysis results (services/analysis.py)\<close>

text \<open>
  The dictionaries of the provider and of the services, with the value types their
  docstrings give. A field the code reads with \<open>in\<close> or \<open>.get\<close> is optional.
\<close>

record entity_dict =
  entity :: "string option"
  word :: "string option"
  start :: "int option"
  end_index :: "int option"

record label_dict =
  label :: "string option"

record sentence_dict =
  labels :: "label_dict list option"
  sentiment :: "label_dict list option"

record sentiment_data =
  Sentiments :: "sentence_dict list option"
  sentiments :: "sentence_dict list option"

record entities_data =
  Entities :: "entity_dict list option"
  entities_lower :: "entity_dict list option"

record sentiment_result =
  overall_sentiment :: "string option"
  positive_count :: nat
  negative_count :: nat
  neutral_count :: nat
  sentiment_full_data :: sentiment_data

record entities_result =
  entities :: "entity_dict list option"
  entity_count :: nat
  entities_full_data :: entities_data

section \<open>Result formatter (app.py, format_analysis_results)\<close>

text \<open>
  The loop \<open>for entity in entities[:10]\<close>, with \<open>entity_list\<close> as its accumulator.
  \<open>if entity_word:\<close> is true for a non-empty string.
\<close>

fun entity_loop :: "entity_dict list \<Rightarrow> string list \<Rightarrow> string list" where
  "entity_loop [] entity_list = entity_list"
| "entity_loop (e # es) entity_list =
     (let entity_type = dict_get (entity e) ''unknown'';
          entity_word = dict_get (word e) ''''
      in if entity_word \<noteq> []
         then entity_loop es (entity_list @ [entity_word @ '' ('' @ entity_type @ '')''])
         else entity_loop es entity_list)"

text \<open>
  A result dictionary always has keys (the counts, the payload), so as a condition it is
  true exactly when it is not \<open>None\<close>. \<open>parts\<close> is the list the source appends to.
\<close>

definition format_analysis_results ::
  "sentiment_result option \<Rightarrow> entities_result option \<Rightarrow> string" where
  "format_analysis_results sentiment_res entities_res =
     (let parts0 = [];
          parts1 =
            (case sentiment_res of
               None \<Rightarrow> parts0
             | Some s \<Rightarrow>
                 (case overall_sentiment s of
                    None \<Rightarrow> parts0
                  | Some sentiment_label \<Rightarrow> parts0 @ [''Sentiment: '' @ sentiment_label]));
          parts2 =
            (case entities_res of
               None \<Rightarrow> parts1
             | Some r \<Rightarrow>
                 (case entities r of
                    None \<Rightarrow> parts1
                  | Some es \<Rightarrow>
                      if length es > 0
                      then (let entity_list = entity_loop (take 10 es) []
                            in if entity_list \<noteq> []
                               then parts1 @ [''Entities found: '' @ join '', '' entity_list]
                               else parts1)
                      else parts1))
      in if parts2 = []
         then ''Analysis completed. No significant patterns detected.''
         else join ''. '' parts2 @ ''.'')"

section \<open>The provider, the credential and the clock\<close>

text \<open>
  What the code cannot decide itself is an input of the model: the credential read from
  the environment, what each call of the provider's client does (it raises, or it returns
  a payload), whether a \<open>wait_for\<close> ran out of time, and the bytes of \<open>os.urandom\<close>.
  The calls made to the provider are recorded in a log, in the order they are started.
\<close>

datatype 'a sdk_result = SdkRaised string | SdkReturned 'a

datatype call =
    TranslateCall string string string
  | TranscribeCall "8 word list" string
  | SentimentCall string
  | EntitiesCall string

datatype exn =
    TranslationError string nat
  | TranscriptionError string nat
  | HTTPException nat string

text \<open>
  \<open>Expired\<close>: the timeout of \<open>asyncio.wait_for\<close> fired. For the pair of analyses,
  \<open>SharedTimeout s e\<close> says which of the two had completed when it fired.
\<close>

datatype wait = InTime | Expired

datatype gather_wait = BothCompleted | SharedTimeout bool bool

record translation_dict =
  translated_text :: "string option"

record translate_data =
  translation :: "translation_dict list option"

record transcribe_data =
  data_id :: "string option"
  data_transcription_text :: "string option"
  data_language_code :: "string option"
  data_transcription_status :: "string option"

record env =
  LELAPA_TOKEN :: "string option"
  sdk_translate :: "string \<Rightarrow> string \<Rightarrow> string \<Rightarrow> translate_data sdk_result"
  sdk_transcribe :: "8 word list \<Rightarrow> string \<Rightarrow> transcribe_data sdk_result"
  sdk_get_sentiments :: "string \<Rightarrow> nat \<Rightarrow> sentiment_data sdk_result"
  sdk_get_entities :: "string \<Rightarrow> nat \<Rightarrow> entities_data sdk_result"
  translate_in_wait :: wait
  analyze_wait :: gather_wait
  translate_out_wait :: wait
  entropy :: "nat \<Rightarrow> nat \<Rightarrow> 8 word"

text \<open>\<open>if not LELAPA_TOKEN\<close>: the variable is unset or empty.\<close>

definition token_missing :: "env \<Rightarrow> bool" where
  "token_missing env = (case LELAPA_TOKEN env of None \<Rightarrow> True | Some t \<Rightarrow> t = [])"

text \<open>
  The \<open>k\<close>-th call of \<open>os.urandom(n)\<close> in a request, and \<open>bytes.hex()\<close>.
\<close>

definition os_urandom :: "env \<Rightarrow> nat \<Rightarrow> nat \<Rightarrow> 8 word list" where
  "os_urandom env k n = map (entropy env k) [0..<n]"

definition hex_digit :: "nat \<Rightarrow> char" where
  "hex_digit d = ''0123456789abcdef'' ! (d mod 16)"

definition bytes_hex :: "8 word list \<Rightarrow> string" where
  "bytes_hex bs = concat (map (\<lambda>b. [hex_digit (unat b div 16), hex_digit (unat b mod 16)]) bs)"

text \<open>
  \<open>str.strip()\<close> and \<open>str.endswith(('.', '!', '?'))\<close>. A \<open>char\<close> is a byte; the
  white space of \<open>strip\<close> is the ASCII white space of Python's \<open>str.isspace\<close>.
\<close>

definition is_space :: "char \<Rightarrow> bool" where
  "is_space c =
     (c \<in> set [CHR '' '', CHR 0x09, CHR 0x0A, CHR 0x0B, CHR 0x0C, CHR 0x0D,
                CHR 0x1C, CHR 0x1D, CHR 0x1E, CHR 0x1F])"

definition strip :: "string \<Rightarrow> string" where
  "strip s = rev (dropWhile is_space (rev (dropWhile is_space s)))"

definition ends_with_punctuation :: "string \<Rightarrow> bool" where
  "ends_with_punctuation s = (s \<noteq> [] \<and> last s \<in> set ''.!?'')"

section \<open>Provider gateway: translation (services/text_translation.py)\<close>

text \<open>
  \<open>translate_text\<close>. The module fails at import without the SDK, so
  \<open>SDK_AVAILABLE\<close> is true wherever the function runs. The result is the raised
  exception (\<open>Inl\<close>) or the returned text (\<open>Inr\<close>), with the log of provider calls.
\<close>

definition translate_text ::
  "env \<Rightarrow> string \<Rightarrow> string \<Rightarrow> string \<Rightarrow> call list \<Rightarrow> (exn + string) \<times> call list" where
  "translate_text env text source_lang target_lang log =
     (if token_missing env
      then (Inl (TranslationError ''Lelapa.ai API token not configured'' 500), log)
      else if source_lang = target_lang
      then (Inr text, log)
      else
        (let log' = log @ [TranslateCall text source_lang target_lang]
         in case sdk_translate env text source_lang target_lang of
              SdkRaised msg \<Rightarrow> (Inr text, log')
            | SdkReturned data \<Rightarrow>
                (case translation data of
                   Some (t # ts) \<Rightarrow>
                     (let translated = dict_get (translated_text t) ''''
                      in if translated \<noteq> [] then (Inr translated, log') else (Inr text, log'))
                 | _ \<Rightarrow> (Inr text, log'))))"

section \<open>Provider gateway: sentiment and entities (services/analysis.py)\<close>

text \<open>The loop over \<open>sentiments\<close> that collects \<open>sentiment_labels\<close>.\<close>

fun label_loop :: "sentence_dict list \<Rightarrow> string list \<Rightarrow> string list" where
  "label_loop [] sentiment_labels = sentiment_labels"
| "label_loop (sent # rest) sentiment_labels =
     (case labels sent of
        Some (l # ls) \<Rightarrow> label_loop rest (sentiment_labels @ [dict_get (label l) ''neutral''])
      | _ \<Rightarrow>
          (case sentiment sent of
             Some (l # ls) \<Rightarrow> label_loop rest (sentiment_labels @ [dict_get (label l) ''neutral''])
           | _ \<Rightarrow> label_loop rest sentiment_labels))"

text \<open>The vote over the three counts (analysis.py, lines 114 to 118).\<close>

definition overall_of_counts :: "nat \<Rightarrow> nat \<Rightarrow> nat \<Rightarrow> string" where
  "overall_of_counts positive_cnt negative_cnt neutral_cnt =
     (if positive_cnt > negative_cnt \<and> positive_cnt > neutral_cnt then ''positive''
      else if negative_cnt > positive_cnt \<and> negative_cnt > neutral_cnt then ''negative''
      else ''neutral'')"

text \<open>
  What one attempt makes of the provider's payload (analysis.py, lines 96 to 131):
  \<open>response_sentences\<close> is the value of \<open>sentiments\<close> (the empty list for \<open>None\<close>).
\<close>

definition response_sentences :: "sentiment_data \<Rightarrow> sentence_dict list" where
  "response_sentences data =
     (case Sentiments data of
        Some (x # xs) \<Rightarrow> x # xs
      | _ \<Rightarrow> (case sentiments data of Some (x # xs) \<Rightarrow> x # xs | _ \<Rightarrow> []))"

definition parse_sentiment_response :: "sentiment_data \<Rightarrow> sentiment_result option" where
  "parse_sentiment_response data =
     (let found = response_sentences data
      in if found \<noteq> []
         then
           (let sentiment_labels = label_loop found [];
                positive_cnt = count_list sentiment_labels ''positive'';
                negative_cnt = count_list sentiment_labels ''negative'';
                neutral_cnt = count_list sentiment_labels ''neutral''
            in Some \<lparr>overall_sentiment =
                        Some (overall_of_counts positive_cnt negative_cnt neutral_cnt),
                      positive_count = positive_cnt,
                      negative_count = negative_cnt,
                      neutral_count = neutral_cnt,
                      sentiment_full_data = data\<rparr>)
         else None)"

text \<open>
  \<open>for attempt in range(max_retries)\<close>: an attempt that raises is retried while
  attempts are left. The sleep before a retry is not part of the model.
\<close>

function sentiment_attempts ::
  "env \<Rightarrow> string \<Rightarrow> nat \<Rightarrow> nat \<Rightarrow> call list \<Rightarrow> sentiment_result option \<times> call list" where
  "sentiment_attempts env text_to_analyze max_retries attempt log =
     (if attempt < max_retries
      then
        (let log' = log @ [SentimentCall text_to_analyze]
         in case sdk_get_sentiments env text_to_analyze attempt of
              SdkReturned data \<Rightarrow> (parse_sentiment_response data, log')
            | SdkRaised msg \<Rightarrow>
                if attempt < max_retries - 1
                then sentiment_attempts env text_to_analyze max_retries (attempt + 1) log'
                else (None, log'))
      else (None, log))"
  by pat_completeness auto
termination
  by (relation "measure (\<lambda>(env, t, max_retries, attempt, log). max_retries - attempt)") auto

declare sentiment_attempts.simps [simp del]

definition analyze_sentiment ::
  "env \<Rightarrow> string \<Rightarrow> nat \<Rightarrow> call list \<Rightarrow> sentiment_result option \<times> call list" where
  "analyze_sentiment env text max_retries log =
     (if token_missing env then (None, log)
      else
        (let text_to_analyze = strip text
         in if text_to_analyze = [] then (None, log)
            else
              (let text_to_analyze =
                     (if \<not> ends_with_punctuation text_to_analyze
                      then text_to_analyze @ ''.'' else text_to_analyze)
               in sentiment_attempts env text_to_analyze max_retries 0 log)))"

definition parse_entities_response :: "entities_data \<Rightarrow> entities_result option" where
  "parse_entities_response data =
     (let found =
            (case Entities data of
               Some es \<Rightarrow> es
             | None \<Rightarrow> (case entities_lower data of Some es \<Rightarrow> es | None \<Rightarrow> []))
      in if found \<noteq> []
         then Some \<lparr>entities = Some found, entity_count = length found,
                    entities_full_data = data\<rparr>
         else Some \<lparr>entities = Some [], entity_count = 0, entities_full_data = data\<rparr>)"

function entities_attempts ::
  "env \<Rightarrow> string \<Rightarrow> nat \<Rightarrow> nat \<Rightarrow> call list \<Rightarrow> entities_result option \<times> call list" where
  "entities_attempts env text_to_analyze max_retries attempt log =
     (if attempt < max_retries
      then
        (let log' = log @ [EntitiesCall text_to_analyze]
         in case sdk_get_entities env text_to_analyze attempt of
              SdkReturned data \<Rightarrow> (parse_entities_response data, log')
            | SdkRaised msg \<Rightarrow>
                if attempt < max_retries - 1
                then entities_attempts env text_to_analyze max_retries (attempt + 1) log'
                else (None, log'))
      else (None, log))"
  by pat_completeness auto
termination
  by (relation "measure (\<lambda>(env, t, max_retries, attempt, log). max_retries - attempt)") auto

declare entities_attempts.simps [simp del]

definition analyze_entities ::
  "env \<Rightarrow> string \<Rightarrow> nat \<Rightarrow> call list \<Rightarrow> entities_result option \<times> call list" where
  "analyze_entities env text max_retries log =
     (if token_missing env then (None, log)
      else
        (let text_to_analyze = strip text
         in if text_to_analyze = [] then (None, log)
            else entities_attempts env text_to_analyze max_retries 0 log))"


section \<open>Provider gateway: transcription (services/speech_translation.py)\<close>

record transcription_result =
  result_id :: string
  transcription_text :: string
  language_code :: string
  status :: string

text \<open>
  \<open>transcribe_audio\<close>. \<open>language not in STT_LANGUAGE_MAP\<close> and the lookup
  \<open>STT_LANGUAGE_MAP[language]\<close> are the two branches of one \<open>case\<close>. Whatever raises
  inside the \<open>try\<close> block is the \<open>SdkRaised\<close> outcome, with \<open>str(e)\<close> as its text.
\<close>

definition transcribe_audio ::
  "env \<Rightarrow> 8 word list \<Rightarrow> string \<Rightarrow> call list \<Rightarrow> (exn + transcription_result) \<times> call list" where
  "transcribe_audio env audio_data language log =
     (if token_missing env
      then (Inl (TranscriptionError ''Lelapa.ai API token not configured'' 500), log)
      else
        (case map_of STT_LANGUAGE_MAP language of
           None \<Rightarrow>
             (Inl (TranscriptionError (''Unsupported language for transcription: '' @ language) 400),
              log)
         | Some lang_code \<Rightarrow>
             (let log' = log @ [TranscribeCall audio_data lang_code]
              in case sdk_transcribe env audio_data lang_code of
                   SdkRaised msg \<Rightarrow>
                     (Inl (TranscriptionError (''Transcription failed: '' @ msg) 500), log')
                 | SdkReturned data \<Rightarrow>
                     (let text = dict_get (data_transcription_text data) ''''
                      in if text = []
                         then (Inl (TranscriptionError ''No transcription text in response'' 500),
                               log')
                         else
                           (Inr \<lparr>result_id =
                                   dict_get (data_id data)
                                     (''trans_'' @ bytes_hex (os_urandom env 0 8)),
                                 transcription_text = text,
                                 language_code = dict_get (data_language_code data) lang_code,
                                 status =
                                   dict_get (data_transcription_status data) ''COMPLETED''\<rparr>,
                            log')))))"

section \<open>Pipeline orchestrator (app.py)\<close>

definition REPLACEMENT_SENTENCE :: string where
  "REPLACEMENT_SENTENCE = ''The analysis service is not responding. Please try again later.''"

record TextAnalysisRequest =
  content :: string
  language :: string

record AnalysisResponse =
  ar_id :: string
  ar_content :: string
  ar_language :: string
  ar_sentiment :: "sentiment_result option"
  ar_entities :: "entities_result option"

record TranscriptionResponse =
  tr_id :: string
  tr_transcription_text :: string
  tr_analysis :: string
  tr_language :: string
  tr_sentiment :: "sentiment_result option"
  tr_entities :: "entities_result option"

text \<open>
  The block \<open>try: await asyncio.wait_for(translate_text_service(...), timeout=3)\<close> with
  its two \<open>except\<close> branches, which both keep the text given. The call is started (and
  logged) before the wait can expire.
\<close>

definition translate_with_fallback ::
  "env \<Rightarrow> wait \<Rightarrow> string \<Rightarrow> string \<Rightarrow> string \<Rightarrow> call list \<Rightarrow> string \<times> call list" where
  "translate_with_fallback env w text source_lang target_lang log =
     (let (res, log') = translate_text env text source_lang target_lang log
      in case w of
           Expired \<Rightarrow> (text, log')
         | InTime \<Rightarrow>
             (case res of
                Inr translated \<Rightarrow> (translated, log')
              | Inl e \<Rightarrow> (text, log')))"

text \<open>
  Step 2 of both flows: \<open>run_sentiment\<close> and \<open>run_entities\<close> under one
  \<open>wait_for(gather(...), timeout=3)\<close>. Both are started; when the wait expires the
  assignment to \<open>sentiment_result, entities_result\<close> does not happen and
  \<open>timed_out\<close> is set. The result is \<open>(timed_out, sentiment_result, entities_result)\<close>.
\<close>

definition analyze_step ::
  "env \<Rightarrow> string \<Rightarrow> call list \<Rightarrow>
     (bool \<times> sentiment_result option \<times> entities_result option) \<times> call list" where
  "analyze_step env english_text log =
     (let (s, log1) = analyze_sentiment env english_text 1 log;
          (e, log2) = analyze_entities env english_text 1 log1
      in case analyze_wait env of
           BothCompleted \<Rightarrow> ((False, s, e), log2)
         | SharedTimeout s_done e_done \<Rightarrow> ((True, None, None), log2))"

text \<open>Step 3 of both flows.\<close>

definition format_step ::
  "bool \<Rightarrow> sentiment_result option \<Rightarrow> entities_result option \<Rightarrow> string" where
  "format_step timed_out sentiment_res entities_res =
     (if timed_out then REPLACEMENT_SENTENCE
      else format_analysis_results sentiment_res entities_res)"

definition analyze_text ::
  "env \<Rightarrow> TextAnalysisRequest \<Rightarrow> (exn + AnalysisResponse) \<times> call list" where
  "analyze_text env request =
     (if strip (content request) = []
      then (Inl (HTTPException 400 ''Content cannot be empty''), [])
      else if map_of LANGUAGE_MAP (language request) = None
      then (Inl (HTTPException 400
                  (''Unsupported language: '' @ language request @ ''. Supported: '' @
                   join '', '' (map fst LANGUAGE_MAP))), [])
      else if token_missing env
      then (Inl (HTTPException 503 ''Lelapa.ai API token not configured''), [])
      else
        (let source_lang_code = get_language_code (language request);
             target_lang_code = ''eng_Latn'';
             (english_text, log1) =
               (if source_lang_code \<noteq> ''eng_Latn''
                then translate_with_fallback env (translate_in_wait env) (content request)
                       source_lang_code target_lang_code []
                else (content request, []));
             ((timed_out, sentiment_res, entities_res), log2) =
               analyze_step env english_text log1;
             analysis_text = format_step timed_out sentiment_res entities_res;
             (response_text, log3) =
               (if language request \<noteq> ''English''
                then translate_with_fallback env (translate_out_wait env) analysis_text
                       ''eng_Latn'' source_lang_code log2
                else (analysis_text, log2))
         in (Inr \<lparr>ar_id = ''analysis_'' @ bytes_hex (os_urandom env 0 8),
                   ar_content = response_text,
                   ar_language = language request,
                   ar_sentiment = sentiment_res,
                   ar_entities = entities_res\<rparr>,
             log3)))"

text \<open>
  The \<open>except\<close> clauses that close \<open>analyze_audio\<close>: an \<open>HTTPException\<close> is raised
  again, a \<open>TranscriptionError\<close> becomes an \<open>HTTPException\<close> with its status code and
  message, anything else a 500.
\<close>

definition audio_error :: "exn \<Rightarrow> exn" where
  "audio_error e =
     (case e of
        HTTPException code detail \<Rightarrow> HTTPException code detail
      | TranscriptionError message status_code \<Rightarrow> HTTPException status_code message
      | TranslationError message status_code \<Rightarrow>
          HTTPException 500 (''Audio analysis failed: '' @ message))"

text \<open>
  \<open>analyze_audio\<close>. The result of \<open>transcribe_audio\<close> always has the keys \<open>id\<close> and
  \<open>transcription_text\<close>, so the defaults of the two \<open>.get\<close> are never taken.
\<close>

definition analyze_audio ::
  "env \<Rightarrow> 8 word list \<Rightarrow> string \<Rightarrow> (exn + TranscriptionResponse) \<times> call list" where
  "analyze_audio env file lang =
     (if map_of STT_LANGUAGE_MAP lang = None
      then (Inl (HTTPException 400
                  (''Unsupported language: '' @ lang @ ''. Supported: '' @
                   join '', '' (map fst STT_LANGUAGE_MAP))), [])
      else if token_missing env
      then (Inl (HTTPException 503 ''Lelapa.ai API token not configured''), [])
      else
        (case transcribe_audio env file ''English'' [] of
           (Inl e, log1) \<Rightarrow> (Inl (audio_error e), log1)
         | (Inr transcription_res, log1) \<Rightarrow>
             (let english_text = transcription_text transcription_res
              in if english_text = []
                 then (Inl (audio_error (HTTPException 500 ''Transcription returned empty text'')),
                       log1)
                 else
                   (let ((timed_out, sentiment_res, entities_res), log2) =
                          analyze_step env english_text log1;
                        analysis_text = format_step timed_out sentiment_res entities_res;
                        target_lang_code = get_language_code lang;
                        (response_text, log3) =
                          (if lang \<noteq> ''English''
                           then translate_with_fallback env (translate_out_wait env)
                                  analysis_text ''eng_Latn'' target_lang_code log2
                           else (analysis_text, log2))
                    in (Inr \<lparr>tr_id = result_id transcription_res,
                              tr_transcription_text = english_text,
                              tr_analysis = response_text,
                              tr_language = lang,
                              tr_sentiment = sentiment_res,
                              tr_entities = entities_res\<rparr>,
                        log3)))))"


section \<open>Example inputs\<close>

text \<open>
  A provider that answers every call: it translates by putting the target code in front
  of the text, returns a transcript with an id of its own, five sentence labels (two
  positive, two negative, one neutral) and one entity.
\<close>

definition lagos :: entity_dict where
  "lagos = \<lparr>entity = Some ''location'', word = Some ''Lagos'', start = Some 0, end_index = Some 5\<rparr>"

definition empty_word :: entity_dict where
  "empty_word = \<lparr>entity = Some ''location'', word = Some '''', start = None, end_index = None\<rparr>"


definition labelled :: "string \<Rightarrow> sentence_dict" where
  "labelled l = \<lparr>labels = Some [\<lparr>label = Some l\<rparr>], sentiment = None\<rparr>"

definition example_sentiment_data :: sentiment_data where
  "example_sentiment_data =
     \<lparr>Sentiments =
        Some [labelled ''positive'', labelled ''negative'', labelled ''positive'',
              labelled ''negative'', labelled ''neutral''],
      sentiments = None\<rparr>"

definition example_entities_data :: entities_data where
  "example_entities_data = \<lparr>Entities = Some [lagos], entities_lower = None\<rparr>"

definition example_transcript :: transcribe_data where
  "example_transcript =
     \<lparr>data_id = Some ''stt-42'', data_transcription_text = Some ''Rain came late'',
      data_language_code = Some ''eng'', data_transcription_status = Some ''COMPLETED''\<rparr>"

definition example_env :: env where
  "example_env =
     \<lparr>LELAPA_TOKEN = Some ''secret'',
      sdk_translate =
        (\<lambda>text source_lang target_lang.
           SdkReturned \<lparr>translation = Some [\<lparr>translated_text = Some (target_lang @ '': '' @ text)\<rparr>]\<rparr>),
      sdk_transcribe = (\<lambda>audio_data lang_code. SdkReturned example_transcript),
      sdk_get_sentiments = (\<lambda>text attempt. SdkReturned example_sentiment_data),
      sdk_get_entities = (\<lambda>text attempt. SdkReturned example_entities_data),
      translate_in_wait = InTime,
      analyze_wait = BothCompleted,
      translate_out_wait = InTime,
      entropy = (\<lambda>k i. 171)\<rparr>"


definition example_entities_result :: entities_result where
  "example_entities_result =
     \<lparr>entities = Some [lagos], entity_count = 1, entities_full_data = example_entities_data\<rparr>"


text \<open>
  The same provider when the shared wait of the two analyses expires (the sentiment
  analysis had completed, the entity analysis had not), when the client raises on every
  translation, and when the credential is not set.
\<close>

definition timeout_env :: env where
  "timeout_env = example_env\<lparr>analyze_wait := SharedTimeout True False\<rparr>"

definition failing_translate_env :: env where
  "failing_translate_env =
     example_env\<lparr>sdk_translate :=
                   (\<lambda>text source_lang target_lang. SdkRaised ''connection refused'')\<rparr>"

definition no_token_env :: env where
  "no_token_env = example_env\<lparr>LELAPA_TOKEN := None\<rparr>"

definition english_request :: TextAnalysisRequest where
  "english_request = \<lparr>content = ''Harvest was excellent this year'', language = ''English''\<rparr>"

definition zulu_request :: TextAnalysisRequest where
  "zulu_request = \<lparr>content = ''Ukuvuna kwalo nyaka kuhle kakhulu'', language = ''isiZulu''\<rparr>"

text \<open>
  The same provider when the transcript it returns is empty, and when its client raises
  on the transcription.
\<close>

definition empty_transcript_env :: env where
  "empty_transcript_env =
     example_env\<lparr>sdk_transcribe :=
                   (\<lambda>audio_data lang_code.
                      SdkReturned (example_transcript\<lparr>data_transcription_text := Some ''''\<rparr>))\<rparr>"

definition failing_transcribe_env :: env where
  "failing_transcribe_env =
     example_env\<lparr>sdk_transcribe := (\<lambda>audio_data lang_code. SdkRaised ''bad audio'')\<rparr>"

section \<open>Language registry: properties\<close>

text \<open>
  C7: the two code lookups never fail. A registered name gets its registered code, any
  other name gets the English code (\<open>eng_Latn\<close> for translation, \<open>eng\<close> for speech),
  and whatever is returned is one of the codes of the map.
\<close>

theorem language_code_lookup_total:
  "((name, code) \<in> set LANGUAGE_MAP \<longrightarrow> get_language_code name = code)
   \<and> (name \<notin> fst ` set LANGUAGE_MAP \<longrightarrow> get_language_code name = ''eng_Latn'')
   \<and> get_language_code name \<in> snd ` set LANGUAGE_MAP
   \<and> ((sname, scode) \<in> set STT_LANGUAGE_MAP \<longrightarrow> get_stt_language_code sname = scode)
   \<and> (sname \<notin> fst ` set STT_LANGUAGE_MAP \<longrightarrow> get_stt_language_code sname = ''eng'')
   \<and> get_stt_language_code sname \<in> snd ` set STT_LANGUAGE_MAP"
proof (intro conjI)
  show "(name, code) \<in> set LANGUAGE_MAP \<longrightarrow> get_language_code name = code"
    unfolding get_language_code_def LANGUAGE_MAP_def dict_get_def by auto
  show "name \<notin> fst ` set LANGUAGE_MAP \<longrightarrow> get_language_code name = ''eng_Latn''"
    unfolding get_language_code_def LANGUAGE_MAP_def dict_get_def by auto
  show "get_language_code name \<in> snd ` set LANGUAGE_MAP"
    unfolding get_language_code_def LANGUAGE_MAP_def dict_get_def by auto
  show "(sname, scode) \<in> set STT_LANGUAGE_MAP \<longrightarrow> get_stt_language_code sname = scode"
    unfolding get_stt_language_code_def STT_LANGUAGE_MAP_def dict_get_def by auto
  show "sname \<notin> fst ` set STT_LANGUAGE_MAP \<longrightarrow> get_stt_language_code sname = ''eng''"
    unfolding get_stt_language_code_def STT_LANGUAGE_MAP_def dict_get_def by auto
  show "get_stt_language_code sname \<in> snd ` set STT_LANGUAGE_MAP"
    unfolding get_stt_language_code_def STT_LANGUAGE_MAP_def dict_get_def by auto
qed

theorem language_code_lookup_total_witness:
  "get_language_code ''isiZulu'' = ''zul_Latn'' \<and> get_stt_language_code ''Afrikaans'' = ''afr''
   \<and> get_language_code ''Klingon'' = ''eng_Latn'' \<and> get_stt_language_code ''Tswana'' = ''eng''"
  using language_code_lookup_total
          [where name = "''isiZulu''" and code = "''zul_Latn''"
             and sname = "''Afrikaans''" and scode = "''afr''"]
        language_code_lookup_total
          [where name = "''Klingon''" and sname = "''Tswana''"]
  by (simp add: LANGUAGE_MAP_def STT_LANGUAGE_MAP_def)

section \<open>Result formatter: properties\<close>

text \<open>The loop is a filter followed by a map: it keeps the order and appends to the end.\<close>

lemma entity_loop_filter:
  "entity_loop es acc =
     acc @ map (\<lambda>e. dict_get (word e) '''' @ '' ('' @ dict_get (entity e) ''unknown'' @ '')'')
             (filter (\<lambda>e. dict_get (word e) '''' \<noteq> []) es)"
  by (induction es arbitrary: acc) (simp_all add: Let_def)




text \<open>
  C5, as it holds: of a non-empty entity sequence only the first 10 entities are looked
  at, and those of them with a non-empty text are rendered, each as "text (type)" (the
  type "unknown" when it is missing), joined with ", " after "Entities found: ". When
  none of the first 10 has a text, the part is left out. A single entity of type
  "location" and text "Lagos" with no sentiment gives "Entities found: Lagos (location).".
\<close>

theorem format_entities_first_ten:
  "(entities r = Some es \<and> es \<noteq> [] \<longrightarrow>
      length (filter (\<lambda>e. dict_get (word e) '''' \<noteq> []) (take 10 es)) \<le> 10 \<and>
      format_analysis_results None (Some r) =
        (if filter (\<lambda>e. dict_get (word e) '''' \<noteq> []) (take 10 es) = []
         then ''Analysis completed. No significant patterns detected.''
         else ''Entities found: '' @
              join '', ''
                (map (\<lambda>e. dict_get (word e) '''' @ '' ('' @ dict_get (entity e) ''unknown'' @ '')'')
                   (filter (\<lambda>e. dict_get (word e) '''' \<noteq> []) (take 10 es))) @ ''.'') \<and>
      format_analysis_results sres (Some r) =
        format_analysis_results sres (Some (r\<lparr>entities := Some (take 10 es)\<rparr>)))
   \<and> format_analysis_results None
        (Some \<lparr>entities = Some [\<lparr>entity = Some ''location'', word = Some ''Lagos'',
                                  start = st, end_index = en\<rparr>],
               entity_count = cnt, entities_full_data = payload\<rparr>) =
      ''Entities found: Lagos (location).''"
proof -
  have len: "length (filter (\<lambda>e. dict_get (word e) '''' \<noteq> []) (take 10 es)) \<le> 10"
    by (rule order_trans[OF length_filter_le]) simp
  have fmt: "entities r = Some es \<Longrightarrow> es \<noteq> [] \<Longrightarrow>
      format_analysis_results None (Some r) =
        (if filter (\<lambda>e. dict_get (word e) '''' \<noteq> []) (take 10 es) = []
         then ''Analysis completed. No significant patterns detected.''
         else ''Entities found: '' @
              join '', ''
                (map (\<lambda>e. dict_get (word e) '''' @ '' ('' @ dict_get (entity e) ''unknown'' @ '')'')
                   (filter (\<lambda>e. dict_get (word e) '''' \<noteq> []) (take 10 es))) @ ''.'')"
    by (simp add: format_analysis_results_def Let_def entity_loop_filter)
  have trunc: "entities r = Some es \<Longrightarrow> es \<noteq> [] \<Longrightarrow>
      format_analysis_results sres (Some r) =
        format_analysis_results sres (Some (r\<lparr>entities := Some (take 10 es)\<rparr>))"
    by (simp add: format_analysis_results_def Let_def)
  have lagos: "format_analysis_results None
        (Some \<lparr>entities = Some [\<lparr>entity = Some ''location'', word = Some ''Lagos'',
                                  start = st, end_index = en\<rparr>],
               entity_count = cnt, entities_full_data = payload\<rparr>) =
      ''Entities found: Lagos (location).''"
    by (simp add: format_analysis_results_def Let_def dict_get_def)
  from len fmt trunc have first: "entities r = Some es \<and> es \<noteq> [] \<longrightarrow>
      length (filter (\<lambda>e. dict_get (word e) '''' \<noteq> []) (take 10 es)) \<le> 10 \<and>
      format_analysis_results None (Some r) =
        (if filter (\<lambda>e. dict_get (word e) '''' \<noteq> []) (take 10 es) = []
         then ''Analysis completed. No significant patterns detected.''
         else ''Entities found: '' @
              join '', ''
                (map (\<lambda>e. dict_get (word e) '''' @ '' ('' @ dict_get (entity e) ''unknown'' @ '')'')
                   (filter (\<lambda>e. dict_get (word e) '''' \<noteq> []) (take 10 es))) @ ''.'') \<and>
      format_analysis_results sres (Some r) =
        format_analysis_results sres (Some (r\<lparr>entities := Some (take 10 es)\<rparr>))"
    by (intro impI conjI) simp_all
  show ?thesis by (intro conjI first lagos)
qed

text \<open>
  Twelve entities with a text: the first ten are rendered, the last two (with other
  texts) are not.
\<close>

theorem format_entities_first_ten_witness:
  "format_analysis_results None
     (Some (example_entities_result
        \<lparr>entities := Some (replicate 10 lagos @ [lagos\<lparr>word := Some ''Kano''\<rparr>,
                                                   lagos\<lparr>word := Some ''Abuja''\<rparr>])\<rparr>)) =
   ''Entities found: Lagos (location), Lagos (location), Lagos (location), Lagos (location), Lagos (location), Lagos (location), Lagos (location), Lagos (location), Lagos (location), Lagos (location).''"
proof -
  let ?es = "replicate 10 lagos @ [lagos\<lparr>word := Some ''Kano''\<rparr>, lagos\<lparr>word := Some ''Abuja''\<rparr>]"
  let ?r = "example_entities_result\<lparr>entities := Some ?es\<rparr>"
  have "entities ?r = Some ?es \<and> ?es \<noteq> []" by simp
  with format_entities_first_ten[where r = ?r and es = ?es]
  have "format_analysis_results None (Some ?r) =
        (if filter (\<lambda>e. dict_get (word e) '''' \<noteq> []) (take 10 ?es) = []
         then ''Analysis completed. No significant patterns detected.''
         else ''Entities found: '' @
              join '', ''
                (map (\<lambda>e. dict_get (word e) '''' @ '' ('' @ dict_get (entity e) ''unknown'' @ '')'')
                   (filter (\<lambda>e. dict_get (word e) '''' \<noteq> []) (take 10 ?es))) @ ''.'')"
    by blast
  then show ?thesis
    by (simp add: lagos_def dict_get_def numeral_eq_Suc)
qed

text \<open>
  The claim as written fails on a non-empty sequence whose only entity has an empty
  text: nothing is rendered and there is no "Entities found: " part.
\<close>

theorem format_entities_first_ten_counterexample:
  "format_analysis_results None
     (Some \<lparr>entities = Some [empty_word], entity_count = 1,
            entities_full_data = \<lparr>Entities = Some [empty_word], entities_lower = None\<rparr>\<rparr>) =
     ''Analysis completed. No significant patterns detected.''
   \<and> format_analysis_results None
     (Some \<lparr>entities = Some [empty_word], entity_count = 1,
            entities_full_data = \<lparr>Entities = Some [empty_word], entities_lower = None\<rparr>\<rparr>) \<noteq>
     ''Entities found:  (location).''"
  by (simp add: format_analysis_results_def empty_word_def dict_get_def Let_def)




section \<open>Sentiment vote: properties\<close>








section \<open>Translation gateway: properties\<close>

lemma translate_text_Inl:
  "fst (translate_text env input s t log) = Inl e \<Longrightarrow>
     token_missing env \<and> e = TranslationError ''Lelapa.ai API token not configured'' 500 \<and>
     snd (translate_text env input s t log) = log"
  by (auto simp add: translate_text_def Let_def
           split: if_splits sdk_result.splits option.splits list.splits)

lemma translate_text_raised:
  "\<not> token_missing env \<Longrightarrow> s \<noteq> t \<Longrightarrow> sdk_translate env input s t = SdkRaised msg \<Longrightarrow>
     translate_text env input s t log = (Inr input, log @ [TranslateCall input s t])"
  by (simp add: translate_text_def Let_def)

lemma translate_text_Inr:
  "fst (translate_text env input s t log) = Inr out \<Longrightarrow>
     out = input \<or>
     (\<exists>data tr ts. sdk_translate env input s t = SdkReturned data \<and>
        translation data = Some (tr # ts) \<and> translated_text tr = Some out)"
  by (auto simp add: translate_text_def Let_def dict_get_def
           split: if_splits sdk_result.splits option.splits list.splits)

text \<open>
  What the wrapper around a translation returns is the text it was given, or the text
  the provider returned as its translation.
\<close>

lemma translate_with_fallback_result:
  "fst (translate_with_fallback env w input s t log) = input \<or>
     (\<exists>data tr ts. sdk_translate env input s t = SdkReturned data \<and>
        translation data = Some (tr # ts) \<and>
        translated_text tr = Some (fst (translate_with_fallback env w input s t log)))"
proof (cases "fst (translate_text env input s t log)")
  case (Inl e)
  then show ?thesis
    by (simp add: translate_with_fallback_def case_prod_beta split: wait.splits)
next
  case (Inr out)
  from translate_text_Inr[OF Inr] Inr show ?thesis
    by (cases w) (auto simp add: translate_with_fallback_def case_prod_beta)
qed

lemma translate_with_fallback_expired:
  "fst (translate_with_fallback env Expired input s t log) = input"
  by (simp add: translate_with_fallback_def case_prod_beta)

lemma translate_with_fallback_Inl:
  "isl (fst (translate_text env input s t log)) \<Longrightarrow>
     fst (translate_with_fallback env w input s t log) = input"
  by (cases "fst (translate_text env input s t log)")
     (simp_all add: translate_with_fallback_def case_prod_beta split: wait.splits)

text \<open>
  C2, as it holds: when the provider's client raises inside \<open>translate_text\<close> (the
  credential being set and the two codes different), the operation itself returns the
  original input text; it does not pass the failure on. The only failure it passes on is
  the missing credential, raised before any call to the provider. The caller's wrapper
  puts the original text in place of that failure and of a timeout.
\<close>

theorem translate_absorbs_remote_failure:
  "(\<not> token_missing env \<and> source_lang \<noteq> target_lang \<and>
    sdk_translate env input source_lang target_lang = SdkRaised msg \<longrightarrow>
      translate_text env input source_lang target_lang log =
        (Inr input, log @ [TranslateCall input source_lang target_lang]))
   \<and> (fst (translate_text env input source_lang target_lang log) = Inl e \<longrightarrow>
        token_missing env \<and> e = TranslationError ''Lelapa.ai API token not configured'' 500 \<and>
        snd (translate_text env input source_lang target_lang log) = log)
   \<and> (w = Expired \<or> isl (fst (translate_text env input source_lang target_lang log)) \<longrightarrow>
        fst (translate_with_fallback env w input source_lang target_lang log) = input)"
proof (intro conjI impI)
  assume "\<not> token_missing env \<and> source_lang \<noteq> target_lang \<and>
    sdk_translate env input source_lang target_lang = SdkRaised msg"
  then show "translate_text env input source_lang target_lang log =
        (Inr input, log @ [TranslateCall input source_lang target_lang])"
    by (simp add: translate_text_raised)
next
  assume l: "fst (translate_text env input source_lang target_lang log) = Inl e"
  from translate_text_Inl[OF l] show "token_missing env" 
    and "e = TranslationError ''Lelapa.ai API token not configured'' 500"
    and "snd (translate_text env input source_lang target_lang log) = log"
    by simp_all
next
  assume "w = Expired \<or> isl (fst (translate_text env input source_lang target_lang log))"
  then show "fst (translate_with_fallback env w input source_lang target_lang log) = input"
    by (auto simp add: translate_with_fallback_expired translate_with_fallback_Inl)
qed

text \<open>
  With a client that raises on every translation, \<open>translate_text\<close> returns the input
  and has made the call; the wrapper returns the input when its wait expires.
\<close>

theorem translate_absorbs_remote_failure_witness:
  "translate_text failing_translate_env ''Sawubona'' ''zul_Latn'' ''eng_Latn'' [] =
     (Inr ''Sawubona'', [TranslateCall ''Sawubona'' ''zul_Latn'' ''eng_Latn''])
   \<and> fst (translate_with_fallback failing_translate_env Expired ''Sawubona'' ''zul_Latn''
            ''eng_Latn'' []) = ''Sawubona''
   \<and> fst (translate_text no_token_env ''Sawubona'' ''zul_Latn'' ''eng_Latn'' []) =
       Inl (TranslationError ''Lelapa.ai API token not configured'' 500)
   \<and> token_missing no_token_env
   \<and> snd (translate_text no_token_env ''Sawubona'' ''zul_Latn'' ''eng_Latn'' []) = []
   \<and> fst (translate_with_fallback no_token_env InTime ''Sawubona'' ''zul_Latn''
            ''eng_Latn'' []) = ''Sawubona''"
proof -
  have pre: "\<not> token_missing failing_translate_env \<and> ''zul_Latn'' \<noteq> ''eng_Latn'' \<and>
      sdk_translate failing_translate_env ''Sawubona'' ''zul_Latn'' ''eng_Latn'' =
        SdkRaised ''connection refused''"
    by (simp add: failing_translate_env_def example_env_def token_missing_def)
  from translate_absorbs_remote_failure
         [where env = failing_translate_env and input = "''Sawubona''"
            and source_lang = "''zul_Latn''" and target_lang = "''eng_Latn''"
            and msg = "''connection refused''" and log = "[]" and w = Expired] pre
  have one: "translate_text failing_translate_env ''Sawubona'' ''zul_Latn'' ''eng_Latn'' [] =
     (Inr ''Sawubona'', [TranslateCall ''Sawubona'' ''zul_Latn'' ''eng_Latn''])
   \<and> fst (translate_with_fallback failing_translate_env Expired ''Sawubona'' ''zul_Latn''
            ''eng_Latn'' []) = ''Sawubona''"
    by simp
  have raised: "fst (translate_text no_token_env ''Sawubona'' ''zul_Latn'' ''eng_Latn'' []) =
       Inl (TranslationError ''Lelapa.ai API token not configured'' 500)"
    by code_simp
  from translate_absorbs_remote_failure
         [where env = no_token_env and input = "''Sawubona''"
            and source_lang = "''zul_Latn''" and target_lang = "''eng_Latn''"
            and log = "[]" and w = InTime
            and e = "TranslationError ''Lelapa.ai API token not configured'' 500"] raised
  have two: "token_missing no_token_env
   \<and> snd (translate_text no_token_env ''Sawubona'' ''zul_Latn'' ''eng_Latn'' []) = []
   \<and> fst (translate_with_fallback no_token_env InTime ''Sawubona'' ''zul_Latn''
            ''eng_Latn'' []) = ''Sawubona''"
    by simp
  from one raised two show ?thesis by simp
qed

text \<open>
  The claim as written fails: the client raises, and the gateway returns the original
  text as an ordinary result.
\<close>

theorem translate_absorbs_remote_failure_counterexample:
  "fst (translate_text failing_translate_env ''Sawubona'' ''zul_Latn'' ''eng_Latn'' []) =
     Inr ''Sawubona''
   \<and> \<not> isl (fst (translate_text failing_translate_env ''Sawubona'' ''zul_Latn'' ''eng_Latn'' []))"
  by code_simp

text \<open>
  C6, as it holds: with equal source and target codes and the credential set,
  \<open>translate_text\<close> returns the input text unchanged and calls nothing. Without the
  credential it raises the configuration error, also without a call: the credential is
  checked before the codes are compared.
\<close>

theorem translate_same_code_no_call:
  "(\<not> token_missing env \<longrightarrow> translate_text env input code code log = (Inr input, log))
   \<and> (token_missing env \<longrightarrow>
        translate_text env input code code log =
          (Inl (TranslationError ''Lelapa.ai API token not configured'' 500), log))"
  by (simp add: translate_text_def)

theorem translate_same_code_no_call_witness:
  "translate_text example_env ''Good harvest'' ''eng_Latn'' ''eng_Latn'' [] =
     (Inr ''Good harvest'', [])
   \<and> translate_text (example_env\<lparr>LELAPA_TOKEN := Some ''''\<rparr>) ''Good harvest''
       ''zul_Latn'' ''zul_Latn'' [] =
     (Inl (TranslationError ''Lelapa.ai API token not configured'' 500), [])"
  using translate_same_code_no_call
          [where env = example_env and input = "''Good harvest''" and code = "''eng_Latn''"
             and log = "[]"]
        translate_same_code_no_call
          [where env = "example_env\<lparr>LELAPA_TOKEN := Some ''''\<rparr>"
             and input = "''Good harvest''" and code = "''zul_Latn''" and log = "[]"]
  by (simp add: example_env_def token_missing_def)

text \<open>
  The claim as written fails when the credential is not set: the codes are equal and
  the operation raises instead of returning the input.
\<close>

theorem translate_same_code_no_call_counterexample:
  "translate_text no_token_env ''Good harvest'' ''eng_Latn'' ''eng_Latn'' [] =
     (Inl (TranslationError ''Lelapa.ai API token not configured'' 500), [])"
  by code_simp


section \<open>Pipeline orchestrator: properties\<close>

lemma analyze_step_timeout:
  "analyze_wait env = SharedTimeout s_done e_done \<Longrightarrow>
     fst (analyze_step env english_text log) = (True, None, None)"
  by (simp add: analyze_step_def case_prod_beta)

lemma format_step_timeout: "format_step True sres eres = REPLACEMENT_SENTENCE"
  by (simp add: format_step_def)

text \<open>
  C1, as it holds: when the shared wait of the two analyses expires, whichever of them
  had completed, the analysis text of the Format step is exactly the fixed sentence and
  the sentiment and entities fields of the response are absent, in the text flow and in
  the audio flow. The text of the response is that sentence when the requested language
  is "English" or the wait of the translation back expires; in every case it is that
  sentence or what the provider returned as the translation of that sentence.
\<close>

theorem analyze_timeout_degraded_sentence:
  "analyze_wait env = SharedTimeout s_done e_done \<longrightarrow>
     format_step True sres eres = REPLACEMENT_SENTENCE \<and>
     (analyze_text env request = (Inr resp, log) \<longrightarrow>
        ar_sentiment resp = None \<and> ar_entities resp = None \<and>
        (language request = ''English'' \<or> translate_out_wait env = Expired \<longrightarrow>
           ar_content resp = REPLACEMENT_SENTENCE) \<and>
        (ar_content resp = REPLACEMENT_SENTENCE \<or>
         (\<exists>data tr ts.
            sdk_translate env REPLACEMENT_SENTENCE ''eng_Latn''
              (get_language_code (language request)) = SdkReturned data \<and>
            translation data = Some (tr # ts) \<and>
            translated_text tr = Some (ar_content resp)))) \<and>
     (analyze_audio env upload lang = (Inr tresp, tlog) \<longrightarrow>
        tr_sentiment tresp = None \<and> tr_entities tresp = None \<and>
        (lang = ''English'' \<or> translate_out_wait env = Expired \<longrightarrow>
           tr_analysis tresp = REPLACEMENT_SENTENCE) \<and>
        (tr_analysis tresp = REPLACEMENT_SENTENCE \<or>
         (\<exists>data tr ts.
            sdk_translate env REPLACEMENT_SENTENCE ''eng_Latn'' (get_language_code lang) =
              SdkReturned data \<and>
            translation data = Some (tr # ts) \<and>
            translated_text tr = Some (tr_analysis tresp))))"
proof (intro impI conjI)
  show "format_step True sres eres = REPLACEMENT_SENTENCE"
    by (rule format_step_timeout)
next
  assume t: "analyze_wait env = SharedTimeout s_done e_done"
    and r: "analyze_text env request = (Inr resp, log)"
  note step = analyze_step_timeout[OF t]
  from r show "ar_sentiment resp = None"
    by (auto simp add: analyze_text_def Let_def case_prod_beta step split: if_splits)
  from r show "ar_entities resp = None"
    by (auto simp add: analyze_text_def Let_def case_prod_beta step split: if_splits)
  from r have "\<exists>l. ar_content resp =
       (if language request \<noteq> ''English''
        then fst (translate_with_fallback env (translate_out_wait env) REPLACEMENT_SENTENCE
                   ''eng_Latn'' (get_language_code (language request)) l)
        else REPLACEMENT_SENTENCE)"
    by (auto simp add: analyze_text_def Let_def case_prod_beta step format_step_timeout
             split: if_splits)
  then obtain l where content: "ar_content resp =
       (if language request \<noteq> ''English''
        then fst (translate_with_fallback env (translate_out_wait env) REPLACEMENT_SENTENCE
                   ''eng_Latn'' (get_language_code (language request)) l)
        else REPLACEMENT_SENTENCE)" ..
  show "ar_content resp = REPLACEMENT_SENTENCE"
    if "language request = ''English'' \<or> translate_out_wait env = Expired"
    using that content by (auto simp add: translate_with_fallback_expired)
  show "ar_content resp = REPLACEMENT_SENTENCE \<or>
         (\<exists>data tr ts.
            sdk_translate env REPLACEMENT_SENTENCE ''eng_Latn''
              (get_language_code (language request)) = SdkReturned data \<and>
            translation data = Some (tr # ts) \<and>
            translated_text tr = Some (ar_content resp))"
  proof (cases "language request = ''English''")
    case True
    with content show ?thesis by simp
  next
    case False
    with content translate_with_fallback_result show ?thesis by presburger
  qed
next
  assume t: "analyze_wait env = SharedTimeout s_done e_done"
    and r: "analyze_audio env upload lang = (Inr tresp, tlog)"
  note step = analyze_step_timeout[OF t]
  from r show "tr_sentiment tresp = None"
    by (auto simp add: analyze_audio_def Let_def case_prod_beta step
             split: if_splits prod.splits sum.splits)
  from r show "tr_entities tresp = None"
    by (auto simp add: analyze_audio_def Let_def case_prod_beta step
             split: if_splits prod.splits sum.splits)
  from r have "\<exists>l. tr_analysis tresp =
       (if lang \<noteq> ''English''
        then fst (translate_with_fallback env (translate_out_wait env) REPLACEMENT_SENTENCE
                   ''eng_Latn'' (get_language_code lang) l)
        else REPLACEMENT_SENTENCE)"
    by (auto simp add: analyze_audio_def Let_def case_prod_beta step format_step_timeout
             split: if_splits prod.splits sum.splits)
  then obtain l where content: "tr_analysis tresp =
       (if lang \<noteq> ''English''
        then fst (translate_with_fallback env (translate_out_wait env) REPLACEMENT_SENTENCE
                   ''eng_Latn'' (get_language_code lang) l)
        else REPLACEMENT_SENTENCE)" ..
  show "tr_analysis tresp = REPLACEMENT_SENTENCE"
    if "lang = ''English'' \<or> translate_out_wait env = Expired"
    using that content by (auto simp add: translate_with_fallback_expired)
  show "tr_analysis tresp = REPLACEMENT_SENTENCE \<or>
         (\<exists>data tr ts.
            sdk_translate env REPLACEMENT_SENTENCE ''eng_Latn'' (get_language_code lang) =
              SdkReturned data \<and>
            translation data = Some (tr # ts) \<and>
            translated_text tr = Some (tr_analysis tresp))"
  proof (cases "lang = ''English''")
    case True
    with content show ?thesis by simp
  next
    case False
    with content translate_with_fallback_result show ?thesis by presburger
  qed
qed

text \<open>
  An English text request and an English audio request whose analyses run out of time,
  the sentiment analysis having completed: the response carries the fixed sentence and
  neither result.
\<close>

theorem analyze_timeout_degraded_sentence_witness:
  "analyze_wait timeout_env = SharedTimeout True False
   \<and> analyze_text timeout_env english_request =
       (Inr \<lparr>ar_id = ''analysis_abababababababab'', ar_content = REPLACEMENT_SENTENCE,
              ar_language = ''English'', ar_sentiment = None, ar_entities = None\<rparr>,
        [SentimentCall ''Harvest was excellent this year.'',
         EntitiesCall ''Harvest was excellent this year''])
   \<and> analyze_audio timeout_env [1, 2, 3] ''English'' =
       (Inr \<lparr>tr_id = ''stt-42'', tr_transcription_text = ''Rain came late'',
              tr_analysis = REPLACEMENT_SENTENCE, tr_language = ''English'',
              tr_sentiment = None, tr_entities = None\<rparr>,
        [TranscribeCall [1, 2, 3] ''eng'', SentimentCall ''Rain came late.'',
         EntitiesCall ''Rain came late''])"
proof -
  have w: "analyze_wait timeout_env = SharedTimeout True False"
    by (simp add: timeout_env_def)
  obtain resp log where a: "analyze_text timeout_env english_request = (Inr resp, log)"
    and ai: "ar_id resp = ''analysis_abababababababab''"
    and al: "ar_language resp = ''English''"
    and alog: "log = [SentimentCall ''Harvest was excellent this year.'',
                      EntitiesCall ''Harvest was excellent this year'']"
  proof -
    have "analyze_text timeout_env english_request =
       (Inr \<lparr>ar_id = ''analysis_abababababababab'', ar_content = REPLACEMENT_SENTENCE,
              ar_language = ''English'', ar_sentiment = None, ar_entities = None\<rparr>,
        [SentimentCall ''Harvest was excellent this year.'',
         EntitiesCall ''Harvest was excellent this year''])"
      by code_simp
    then show ?thesis using that by simp
  qed
  obtain tresp tlog where b: "analyze_audio timeout_env [1, 2, 3] ''English'' = (Inr tresp, tlog)"
    and bi: "tr_id tresp = ''stt-42''"
    and bt: "tr_transcription_text tresp = ''Rain came late''"
    and bl: "tr_language tresp = ''English''"
    and blog: "tlog = [TranscribeCall [1, 2, 3] ''eng'', SentimentCall ''Rain came late.'',
                       EntitiesCall ''Rain came late'']"
  proof -
    have "analyze_audio timeout_env [1, 2, 3] ''English'' =
       (Inr \<lparr>tr_id = ''stt-42'', tr_transcription_text = ''Rain came late'',
              tr_analysis = REPLACEMENT_SENTENCE, tr_language = ''English'',
              tr_sentiment = None, tr_entities = None\<rparr>,
        [TranscribeCall [1, 2, 3] ''eng'', SentimentCall ''Rain came late.'',
         EntitiesCall ''Rain came late''])"
      by code_simp
    then show ?thesis using that by simp
  qed
  from analyze_timeout_degraded_sentence
         [where env = timeout_env and s_done = True and e_done = False
            and request = english_request and resp = resp and log = log
            and upload = "[1, 2, 3]" and lang = "''English''" and tresp = tresp and tlog = tlog]
       w a b
  have "ar_sentiment resp = None \<and> ar_entities resp = None \<and>
        ar_content resp = REPLACEMENT_SENTENCE \<and>
        tr_sentiment tresp = None \<and> tr_entities tresp = None \<and>
        tr_analysis tresp = REPLACEMENT_SENTENCE"
    by (simp add: english_request_def)
  with w a b ai al alog bi bt bl blog show ?thesis
    by (cases resp, cases tresp) simp
qed

text \<open>
  The claim as written fails for a request in isiZulu: the analyses run out of time, the
  fixed sentence is translated back, and the text of the response is the translation.
\<close>

theorem analyze_timeout_degraded_sentence_counterexample:
  "analyze_wait timeout_env = SharedTimeout True False
   \<and> map_sum id ar_content (fst (analyze_text timeout_env zulu_request)) =
       Inr ''zul_Latn: The analysis service is not responding. Please try again later.''
   \<and> map_sum id ar_content (fst (analyze_text timeout_env zulu_request)) \<noteq>
       Inr REPLACEMENT_SENTENCE"
  by code_simp


text \<open>
  C8: when the transcription of an audio request fails (the client raises) or returns
  an empty or missing transcript, the request ends in an error response and the provider
  has been called for the transcription at most: no sentiment, entities or translation
  call is made. The empty transcript has an error text of its own, different from that
  of every other transcription failure.
\<close>

theorem transcription_failure_rejects_request:
  "(sdk_transcribe env upload ''eng'' = SdkRaised msg \<or>
    (sdk_transcribe env upload ''eng'' = SdkReturned data \<and>
     dict_get (data_transcription_text data) '''' = []) \<longrightarrow>
      (\<exists>code detail. fst (analyze_audio env upload lang) = Inl (HTTPException code detail)) \<and>
      snd (analyze_audio env upload lang) =
        (if map_of STT_LANGUAGE_MAP lang = None \<or> token_missing env then []
         else [TranscribeCall upload ''eng'']))
   \<and> (map_of STT_LANGUAGE_MAP lang \<noteq> None \<and> \<not> token_missing env \<and>
       sdk_transcribe env upload ''eng'' = SdkRaised msg \<longrightarrow>
        fst (analyze_audio env upload lang) =
          Inl (HTTPException 500 (''Transcription failed: '' @ msg)))
   \<and> (map_of STT_LANGUAGE_MAP lang \<noteq> None \<and> \<not> token_missing env \<and>
       sdk_transcribe env upload ''eng'' = SdkReturned data \<and>
       dict_get (data_transcription_text data) '''' = [] \<longrightarrow>
        fst (analyze_audio env upload lang) =
          Inl (HTTPException 500 ''No transcription text in response''))
   \<and> ''No transcription text in response'' \<noteq> ''Transcription failed: '' @ msg"
proof -
  have eng: "map_of STT_LANGUAGE_MAP ''English'' = Some ''eng''"
    by (simp add: STT_LANGUAGE_MAP_def)
  have raised: "\<not> token_missing env \<Longrightarrow> sdk_transcribe env upload ''eng'' = SdkRaised msg \<Longrightarrow>
      transcribe_audio env upload ''English'' [] =
        (Inl (TranscriptionError (''Transcription failed: '' @ msg) 500),
         [TranscribeCall upload ''eng''])"
    by (simp add: transcribe_audio_def eng Let_def)
  have empty: "\<not> token_missing env \<Longrightarrow> sdk_transcribe env upload ''eng'' = SdkReturned data \<Longrightarrow>
      dict_get (data_transcription_text data) '''' = [] \<Longrightarrow>
      transcribe_audio env upload ''English'' [] =
        (Inl (TranscriptionError ''No transcription text in response'' 500),
         [TranscribeCall upload ''eng''])"
    by (simp add: transcribe_audio_def eng Let_def)
  have a: "sdk_transcribe env upload ''eng'' = SdkRaised msg \<or>
    (sdk_transcribe env upload ''eng'' = SdkReturned data \<and>
     dict_get (data_transcription_text data) '''' = []) \<longrightarrow>
      (\<exists>code detail. fst (analyze_audio env upload lang) = Inl (HTTPException code detail)) \<and>
      snd (analyze_audio env upload lang) =
        (if map_of STT_LANGUAGE_MAP lang = None \<or> token_missing env then []
         else [TranscribeCall upload ''eng''])"
    using raised empty
    by (auto simp add: analyze_audio_def audio_error_def)
  have b: "map_of STT_LANGUAGE_MAP lang \<noteq> None \<and> \<not> token_missing env \<and>
       sdk_transcribe env upload ''eng'' = SdkRaised msg \<longrightarrow>
        fst (analyze_audio env upload lang) =
          Inl (HTTPException 500 (''Transcription failed: '' @ msg))"
    using raised by (auto simp add: analyze_audio_def audio_error_def)
  have c: "map_of STT_LANGUAGE_MAP lang \<noteq> None \<and> \<not> token_missing env \<and>
       sdk_transcribe env upload ''eng'' = SdkReturned data \<and>
       dict_get (data_transcription_text data) '''' = [] \<longrightarrow>
        fst (analyze_audio env upload lang) =
          Inl (HTTPException 500 ''No transcription text in response'')"
    using empty by (auto simp add: analyze_audio_def audio_error_def)
  have d: "''No transcription text in response'' \<noteq> ''Transcription failed: '' @ msg"
    by simp
  show ?thesis by (intro conjI a b c d)
qed

text \<open>
  An upload in Afrikaans whose transcript comes back empty, and one on which the client
  raises: both requests end in a 500 with the transcription call as the only call.
\<close>

theorem transcription_failure_rejects_request_witness:
  "analyze_audio empty_transcript_env [1, 2, 3] ''Afrikaans'' =
     (Inl (HTTPException 500 ''No transcription text in response''),
      [TranscribeCall [1, 2, 3] ''eng''])
   \<and> analyze_audio failing_transcribe_env [1, 2, 3] ''Afrikaans'' =
     (Inl (HTTPException 500 ''Transcription failed: bad audio''),
      [TranscribeCall [1, 2, 3] ''eng''])"
proof -
  have e: "sdk_transcribe empty_transcript_env [1, 2, 3] ''eng'' =
        SdkReturned (example_transcript\<lparr>data_transcription_text := Some ''''\<rparr>) \<and>
      dict_get (data_transcription_text
        (example_transcript\<lparr>data_transcription_text := Some ''''\<rparr>)) '''' = []"
    by (simp add: empty_transcript_env_def example_env_def dict_get_def)
  have f: "sdk_transcribe failing_transcribe_env [1, 2, 3] ''eng'' = SdkRaised ''bad audio''"
    by (simp add: failing_transcribe_env_def example_env_def)
  have v: "map_of STT_LANGUAGE_MAP ''Afrikaans'' \<noteq> None"
    "\<not> token_missing empty_transcript_env" "\<not> token_missing failing_transcribe_env"
    by (simp_all add: STT_LANGUAGE_MAP_def token_missing_def empty_transcript_env_def
          failing_transcribe_env_def example_env_def)
  from transcription_failure_rejects_request
         [where env = empty_transcript_env and upload = "[1, 2, 3]" and lang = "''Afrikaans''"
            and data = "example_transcript\<lparr>data_transcription_text := Some ''''\<rparr>"] e v
  have one: "fst (analyze_audio empty_transcript_env [1, 2, 3] ''Afrikaans'') =
               Inl (HTTPException 500 ''No transcription text in response'')"
    and one': "snd (analyze_audio empty_transcript_env [1, 2, 3] ''Afrikaans'') =
               [TranscribeCall [1, 2, 3] ''eng'']"
    by simp_all
  from transcription_failure_rejects_request
         [where env = failing_transcribe_env and upload = "[1, 2, 3]" and lang = "''Afrikaans''"
            and msg = "''bad audio''"] f v
  have two: "fst (analyze_audio failing_transcribe_env [1, 2, 3] ''Afrikaans'') =
               Inl (HTTPException 500 ''Transcription failed: bad audio'')"
    and two': "snd (analyze_audio failing_transcribe_env [1, 2, 3] ''Afrikaans'') =
               [TranscribeCall [1, 2, 3] ''eng'']"
    by simp_all
  from one one' two two' show ?thesis
    by (simp add: prod_eq_iff)
qed

section \<open>Response identifiers: properties\<close>

lemma hex_digit_inj: "a < 16 \<Longrightarrow> b < 16 \<Longrightarrow> hex_digit a = hex_digit b \<Longrightarrow> a = b"
  unfolding hex_digit_def
  using nth_eq_iff_index_eq[of "''0123456789abcdef''" a b] by simp

lemma hex_byte_inj:
  fixes x y :: "8 word"
  assumes "hex_digit (unat x div 16) = hex_digit (unat y div 16)"
    and "hex_digit (unat x mod 16) = hex_digit (unat y mod 16)"
  shows "x = y"
proof -
  have bx: "unat x < 256" using unsigned_less[of x] by simp
  have by': "unat y < 256" using unsigned_less[of y] by simp
  from bx by' have "unat x div 16 < 16" "unat y div 16 < 16" by simp_all
  with assms(1) have d: "unat x div 16 = unat y div 16" by (rule hex_digit_inj[rotated 2])
  have "unat x mod 16 < 16" "unat y mod 16 < 16" by simp_all
  with assms(2) have m: "unat x mod 16 = unat y mod 16" by (rule hex_digit_inj[rotated 2])
  have "unat x = 16 * (unat x div 16) + unat x mod 16" by simp
  also have "\<dots> = 16 * (unat y div 16) + unat y mod 16" using d m by simp
  also have "\<dots> = unat y" by simp
  finally show ?thesis by (simp add: word_unat_eq_iff)
qed

text \<open>The hexadecimal text of a byte string determines the bytes.\<close>

lemma bytes_hex_inj:
  "length xs = length ys \<Longrightarrow> bytes_hex xs = bytes_hex ys \<Longrightarrow> xs = ys"
proof (induction xs ys rule: list_induct2)
  case Nil
  then show ?case by simp
next
  case (Cons x xs y ys)
  from Cons.prems have "x = y" and "bytes_hex xs = bytes_hex ys"
    by (auto simp add: bytes_hex_def intro: hex_byte_inj)
  with Cons.IH show ?case by simp
qed

lemma bytes_hex_length: "length (bytes_hex bs) = 2 * length bs"
  by (induction bs) (simp_all add: bytes_hex_def)

lemma os_urandom_length: "length (os_urandom env k n) = n"
  by (simp add: os_urandom_def)

text \<open>
  C9, as it holds: in the text flow the id of the response is "analysis_" followed by
  the 16 hexadecimal digits of 8 bytes drawn for this request, and different bytes give
  different ids. In the audio flow the id is the one the provider returned with the
  transcript when it returned one, and "trans_" followed by the digits of 8 drawn bytes
  when it did not.
\<close>

theorem response_id_origin:
  "(analyze_text env request = (Inr resp, log) \<longrightarrow>
      ar_id resp = ''analysis_'' @ bytes_hex (os_urandom env 0 8) \<and> length (ar_id resp) = 25)
   \<and> (analyze_audio env upload lang = (Inr tresp, tlog) \<longrightarrow>
        (\<exists>data. sdk_transcribe env upload ''eng'' = SdkReturned data \<and>
           tr_id tresp =
             (case data_id data of
                Some provider_id \<Rightarrow> provider_id
              | None \<Rightarrow> ''trans_'' @ bytes_hex (os_urandom env 0 8))))
   \<and> (bytes_hex (os_urandom env 0 8) = bytes_hex (os_urandom env' 0 8) \<longrightarrow>
        os_urandom env 0 8 = os_urandom env' 0 8)"
proof (intro conjI impI)
  assume r: "analyze_text env request = (Inr resp, log)"
  then show id: "ar_id resp = ''analysis_'' @ bytes_hex (os_urandom env 0 8)"
    by (auto simp add: analyze_text_def Let_def case_prod_beta split: if_splits)
  then show "length (ar_id resp) = 25"
    by (simp add: bytes_hex_length os_urandom_length)
next
  assume r: "analyze_audio env upload lang = (Inr tresp, tlog)"
  have eng: "map_of STT_LANGUAGE_MAP ''English'' = Some ''eng''"
    by (simp add: STT_LANGUAGE_MAP_def)
  obtain res tl where t0: "transcribe_audio env upload ''English'' [] = (res, tl)"
    by fastforce
  with r obtain tres where res: "res = Inr tres" and i: "tr_id tresp = result_id tres"
    by (cases res) (auto simp add: analyze_audio_def Let_def case_prod_beta split: if_splits)
  from t0 res have t: "transcribe_audio env upload ''English'' [] = (Inr tres, tl)" by simp
  from t obtain data where "sdk_transcribe env upload ''eng'' = SdkReturned data"
    and "result_id tres = dict_get (data_id data) (''trans_'' @ bytes_hex (os_urandom env 0 8))"
    by (auto simp add: transcribe_audio_def eng Let_def split: if_splits sdk_result.splits)
  with i show "\<exists>data. sdk_transcribe env upload ''eng'' = SdkReturned data \<and>
           tr_id tresp =
             (case data_id data of
                Some provider_id \<Rightarrow> provider_id
              | None \<Rightarrow> ''trans_'' @ bytes_hex (os_urandom env 0 8))"
    by (auto simp add: dict_get_def split: option.splits)
next
  assume "bytes_hex (os_urandom env 0 8) = bytes_hex (os_urandom env' 0 8)"
  then show "os_urandom env 0 8 = os_urandom env' 0 8"
    by (intro bytes_hex_inj) (simp_all add: os_urandom_length)
qed

text \<open>
  The example text request gets an id made of its drawn bytes (all \<open>0xab\<close>); an audio
  request whose transcript comes without an id gets "trans_" and the drawn bytes.
\<close>

theorem response_id_origin_witness:
  "map_sum id ar_id (fst (analyze_text example_env english_request)) =
     Inr ''analysis_abababababababab''
   \<and> map_sum id tr_id
       (fst (analyze_audio
          (example_env\<lparr>sdk_transcribe :=
             (\<lambda>audio_data lang_code. SdkReturned (example_transcript\<lparr>data_id := None\<rparr>))\<rparr>)
          [1, 2, 3] ''English'')) =
     Inr ''trans_abababababababab''
   \<and> os_urandom example_env 0 8 = os_urandom timeout_env 0 8"
proof -
  let ?env = "example_env\<lparr>sdk_transcribe :=
             (\<lambda>audio_data lang_code. SdkReturned (example_transcript\<lparr>data_id := None\<rparr>))\<rparr>"
  obtain resp log where a: "analyze_text example_env english_request = (Inr resp, log)"
  proof -
    have "\<not> isl (fst (analyze_text example_env english_request))" by code_simp
    moreover obtain x l where p: "analyze_text example_env english_request = (x, l)"
      by fastforce
    ultimately obtain y where "x = Inr y" by (cases x) auto
    with p show ?thesis using that by simp
  qed
  obtain tresp tlog where b: "analyze_audio ?env [1, 2, 3] ''English'' = (Inr tresp, tlog)"
  proof -
    have "\<not> isl (fst (analyze_audio ?env [1, 2, 3] ''English''))" by code_simp
    moreover obtain x l where p: "analyze_audio ?env [1, 2, 3] ''English'' = (x, l)"
      by fastforce
    ultimately obtain y where "x = Inr y" by (cases x) auto
    with p show ?thesis using that by simp
  qed
  have hex: "bytes_hex (os_urandom example_env 0 8) = ''abababababababab''"
    "bytes_hex (os_urandom ?env 0 8) = ''abababababababab''"
    by code_simp+
  from response_id_origin
         [where env = example_env and request = english_request and resp = resp and log = log]
       a hex
  have one: "ar_id resp = ''analysis_abababababababab''" by simp
  from response_id_origin
         [where env = ?env and upload = "[1, 2, 3]" and lang = "''English''"
            and tresp = tresp and tlog = tlog]
       b hex
  have two: "tr_id tresp = ''trans_abababababababab''"
    by (auto simp add: example_env_def example_transcript_def)
  have same: "bytes_hex (os_urandom example_env 0 8) = bytes_hex (os_urandom timeout_env 0 8)"
    by code_simp
  from response_id_origin[where env = example_env and env' = timeout_env] same
  have three: "os_urandom example_env 0 8 = os_urandom timeout_env 0 8" by simp
  from a b one two three show ?thesis by simp
qed

text \<open>
  The claim as written fails in the audio flow: the id of the response is the id the
  provider sent with the transcript, whatever bytes are drawn for the request.
\<close>

theorem response_id_origin_counterexample:
  "map_sum id tr_id (fst (analyze_audio example_env [1, 2, 3] ''English'')) = Inr ''stt-42''
   \<and> map_sum id tr_id
       (fst (analyze_audio (example_env\<lparr>entropy := (\<lambda>k i. 0)\<rparr>) [1, 2, 3] ''English'')) =
     Inr ''stt-42''
   \<and> data_id example_transcript = Some ''stt-42''"
  by code_simp


end
